theory Spec2Isabelle
  imports Main "HOL-Library.Word"
begin

section \<open>Package webhook: deprecated-field validators (deprecated.go)\<close>

subsection \<open>Collaborators from k8s.io/apimachinery: field.Path and field.Error\<close>

text \<open>
  A \<open>*field.Path\<close> is a linked list of named elements pointing at its parent; the
  nil pointer is a legal receiver of \<open>Child\<close> and \<open>String\<close>. Only named children
  occur in deprecated.go, so an element carries its name alone.
\<close>

datatype Path = PathNil | PathElem Path string

definition NewPath :: "string \<Rightarrow> Path" where
  "NewPath name = PathElem PathNil name"

definition Child :: "Path \<Rightarrow> string \<Rightarrow> Path" where
  "Child p name = PathElem p name"

text \<open>
  \<open>Path.String\<close>: \<open><nil>\<close> for the nil path; otherwise the elements root first, a
  dot before every named element that has a parent, an element with an empty name
  printed as an (empty) index.
\<close>

fun PathString :: "Path \<Rightarrow> string" where
  "PathString PathNil = ''<nil>''"
| "PathString (PathElem PathNil name) = (if name \<noteq> [] then name else ''[]'')"
| "PathString (PathElem (PathElem p pn) name) =
     PathString (PathElem p pn) @ (if name \<noteq> [] then ''.'' @ name else ''[]'')"

datatype ErrorType = ErrorTypeInvalid | ErrorTypeForbidden

record FieldError =
  Type :: ErrorType
  Field :: string
  BadValue :: string
  Detail :: string

definition Invalid :: "Path \<Rightarrow> string \<Rightarrow> string \<Rightarrow> FieldError" where
  "Invalid p v detail =
     \<lparr>Type = ErrorTypeInvalid, Field = PathString p, BadValue = v, Detail = detail\<rparr>"

definition Forbidden :: "Path \<Rightarrow> string \<Rightarrow> FieldError" where
  "Forbidden p detail =
     \<lparr>Type = ErrorTypeForbidden, Field = PathString p, BadValue = [], Detail = detail\<rparr>"

text \<open>
  The verb \<open>%q\<close> of fmt.Sprintf: the string between double quotes, with the double
  quote and the backslash escaped. (Escapes of control and non-ASCII characters are
  left out: the arguments are field paths and field values.)
\<close>

definition quoted :: "string \<Rightarrow> string" where
  "quoted s =
     [CHR 0x22]
     @ concat (map (\<lambda>c. if c = CHR 0x22 \<or> c = CHR 0x5C then [CHR 0x5C, c] else [c]) s)
     @ [CHR 0x22]"

subsection \<open>ValidateDeprecatedFieldConflict and ValidateDeprecatedFieldChange\<close>

text \<open>
  The result pair is (warning, error); the nil \<open>*field.Error\<close> is \<open>None\<close>. The
  branches are those of the source, in its order.
\<close>

definition ValidateDeprecatedFieldConflict ::
  "string \<Rightarrow> string \<Rightarrow> Path \<Rightarrow> Path \<Rightarrow> bool \<Rightarrow> string \<times> FieldError option" where
  "ValidateDeprecatedFieldConflict deprecatedValue newValue deprecatedFieldPath newFieldPath
       allowBothIfSame =
     (if deprecatedValue = [] \<and> newValue = [] then ([], None)
      else if deprecatedValue \<noteq> [] \<and> newValue = [] then
        (''field '' @ quoted (PathString deprecatedFieldPath)
           @ '' is deprecated, please use '' @ quoted (PathString newFieldPath)
           @ '' instead'', None)
      else if deprecatedValue = [] \<and> newValue \<noteq> [] then ([], None)
      else if deprecatedValue = newValue then
        (if allowBothIfSame then
           (''both '' @ quoted (PathString deprecatedFieldPath) @ '' and ''
              @ quoted (PathString newFieldPath)
              @ '' are set with the same value. Please migrate to using only ''
              @ quoted (PathString newFieldPath) @ '' and clear ''
              @ quoted (PathString deprecatedFieldPath), None)
         else
           ([], Some (Invalid deprecatedFieldPath deprecatedValue
              (''cannot set both deprecated field '' @ quoted (PathString deprecatedFieldPath)
                 @ '' and new field '' @ quoted (PathString newFieldPath)
                 @ ''. Use '' @ quoted (PathString newFieldPath) @ '' only''))))
      else
        ([], Some (Invalid deprecatedFieldPath deprecatedValue
           (''cannot set both deprecated field '' @ quoted (PathString deprecatedFieldPath)
              @ '' and new field '' @ quoted (PathString newFieldPath)
              @ '' with different values (deprecated: '' @ quoted deprecatedValue
              @ '', new: '' @ quoted newValue
              @ ''). Use '' @ quoted (PathString newFieldPath) @ '' only''))))"

definition ValidateDeprecatedFieldChange ::
  "string \<Rightarrow> string \<Rightarrow> Path \<Rightarrow> Path \<Rightarrow> FieldError option" where
  "ValidateDeprecatedFieldChange oldValue newValue deprecatedFieldPath newFieldPath =
     (if oldValue = newValue then None
      else if newValue = [] then None
      else Some (Forbidden deprecatedFieldPath
        (''field '' @ quoted (PathString deprecatedFieldPath) @ '' is deprecated, use ''
           @ quoted (PathString newFieldPath) @ '' instead. To migrate, first set ''
           @ quoted (PathString newFieldPath) @ '', then clear this field'')))"

text \<open>The pointer variants: a \<open>*string\<close> is a \<open>string option\<close>, nil read as the empty string.\<close>

definition deref :: "string option \<Rightarrow> string" where
  "deref p = (case p of None \<Rightarrow> [] | Some s \<Rightarrow> s)"

definition ValidateDeprecatedFieldConflictPtr ::
  "string option \<Rightarrow> string option \<Rightarrow> Path \<Rightarrow> Path \<Rightarrow> bool \<Rightarrow> string \<times> FieldError option" where
  "ValidateDeprecatedFieldConflictPtr deprecatedValue newValue deprecatedFieldPath newFieldPath
       allowBothIfSame =
     (let oldVal = deref deprecatedValue; newVal = deref newValue
      in ValidateDeprecatedFieldConflict oldVal newVal deprecatedFieldPath newFieldPath
           allowBothIfSame)"

definition ValidateDeprecatedFieldChangePtr ::
  "string option \<Rightarrow> string option \<Rightarrow> Path \<Rightarrow> Path \<Rightarrow> FieldError option" where
  "ValidateDeprecatedFieldChangePtr oldValue newValue deprecatedFieldPath newFieldPath =
     (let oldVal = deref oldValue; newVal = deref newValue
      in ValidateDeprecatedFieldChange oldVal newVal deprecatedFieldPath newFieldPath)"

subsection \<open>ValidateDeprecatedFieldsCreate and ValidateDeprecatedFieldsUpdate\<close>

record DeprecatedField =
  DeprecatedFieldName :: string
  NewFieldPath :: "string list"
  DeprecatedValue :: "string option"
  NewValue :: "string option"

text \<open>
  The inner loop of both functions: \<open>newPath = newPath.Child(segment)\<close> for every
  segment, from \<open>basePath\<close>.
\<close>

definition newPathOf :: "Path \<Rightarrow> string list \<Rightarrow> Path" where
  "newPathOf basePath segments = foldl Child basePath segments"

text \<open>
  The outer loop of ValidateDeprecatedFieldsCreate, with \<open>allWarnings\<close> as the
  accumulator. The second component of the conflict check is bound to \<open>_\<close> in the
  source and is bound to nothing here.
\<close>

fun createLoop :: "DeprecatedField list \<Rightarrow> Path \<Rightarrow> string list \<Rightarrow> string list" where
  "createLoop [] basePath allWarnings = allWarnings"
| "createLoop (df # rest) basePath allWarnings =
     (let deprecatedPath = Child basePath (DeprecatedFieldName df);
          newPath = newPathOf basePath (NewFieldPath df);
          warning = fst (ValidateDeprecatedFieldConflictPtr (DeprecatedValue df) (NewValue df)
                      deprecatedPath newPath True)
      in createLoop rest basePath
           (if warning \<noteq> [] then allWarnings @ [warning] else allWarnings))"

definition ValidateDeprecatedFieldsCreate :: "DeprecatedField list \<Rightarrow> Path \<Rightarrow> string list" where
  "ValidateDeprecatedFieldsCreate deprecatedFields basePath =
     createLoop deprecatedFields basePath []"

record DeprecatedFieldUpdate =
  UpdDeprecatedFieldName :: string
  UpdNewFieldPath :: "string list"
  OldDeprecatedValue :: "string option"
  NewDeprecatedValue :: "string option"
  UpdNewValue :: "string option"

fun updateLoop ::
  "DeprecatedFieldUpdate list \<Rightarrow> Path \<Rightarrow> string list \<times> FieldError list
     \<Rightarrow> string list \<times> FieldError list" where
  "updateLoop [] basePath acc = acc"
| "updateLoop (df # rest) basePath (allWarnings, allErrors) =
     (let deprecatedPath = Child basePath (UpdDeprecatedFieldName df);
          newPath = newPathOf basePath (UpdNewFieldPath df);
          (warning, err) = ValidateDeprecatedFieldConflictPtr (NewDeprecatedValue df)
                             (UpdNewValue df) deprecatedPath newPath True;
          allWarnings1 = (if warning \<noteq> [] then allWarnings @ [warning] else allWarnings);
          allErrors1 = (case err of None \<Rightarrow> allErrors | Some e \<Rightarrow> allErrors @ [e]);
          allErrors2 = (case ValidateDeprecatedFieldChangePtr (OldDeprecatedValue df)
                               (NewDeprecatedValue df) deprecatedPath newPath of
                          None \<Rightarrow> allErrors1 | Some e \<Rightarrow> allErrors1 @ [e])
      in updateLoop rest basePath (allWarnings1, allErrors2))"

definition ValidateDeprecatedFieldsUpdate ::
  "DeprecatedFieldUpdate list \<Rightarrow> Path \<Rightarrow> string list \<times> FieldError list" where
  "ValidateDeprecatedFieldsUpdate deprecatedFields basePath =
     updateLoop deprecatedFields basePath ([], [])"

section \<open>Errors and their classification (k8s.io/apimachinery api/errors)\<close>

text \<open>
  A Go \<open>error\<close> is an \<open>error option\<close>, nil being \<open>None\<close>. An error is a status error
  of the API server with its reason, a plain error, or an error wrapped by
  \<open>fmt.Errorf("...: %w", err)\<close> with the text in front of it.
\<close>

datatype StatusReason =
    StatusReasonUnknown
  | StatusReasonNotFound
  | StatusReasonConflict
  | StatusReasonAlreadyExists
  | StatusReasonForbidden
  | StatusReasonInternalError

datatype error =
    StatusError StatusReason string
  | PlainError string
  | WrappedError string error

text \<open>
  \<open>ReasonForError\<close> finds the status error through the chain of wrapped errors, as
  \<open>errors.As\<close> does, and answers \<open>StatusReasonUnknown\<close> when there is none; nil has no
  reason either.
\<close>

fun reasonOf :: "error \<Rightarrow> StatusReason" where
  "reasonOf (StatusError r msg) = r"
| "reasonOf (PlainError msg) = StatusReasonUnknown"
| "reasonOf (WrappedError msg e) = reasonOf e"

definition ReasonForError :: "error option \<Rightarrow> StatusReason" where
  "ReasonForError err = (case err of None \<Rightarrow> StatusReasonUnknown | Some e \<Rightarrow> reasonOf e)"

definition IsNotFound :: "error option \<Rightarrow> bool" where
  "IsNotFound err = (ReasonForError err = StatusReasonNotFound)"

definition IsConflict :: "error option \<Rightarrow> bool" where
  "IsConflict err = (ReasonForError err = StatusReasonConflict)"

section \<open>Objects, owner references and weakly-typed documents\<close>

record OwnerReference =
  APIVersion :: string
  Kind :: string
  Name :: string
  UID :: string
  Controller :: "bool option"
  BlockOwnerDeletion :: "bool option"

text \<open>
  A \<open>client.Object\<close>, as far as object.go reads it: the type information and the
  metadata behind the accessor methods of the same names.
\<close>

record Object =
  GetAPIVersion :: string
  GetKind :: string
  GetNamespace :: string
  GetName :: string
  GetUID :: string
  GetOwnerReferences :: "OwnerReference list"

text \<open>
  The content of an \<open>unstructured.Unstructured\<close>: JSON values as Go decodes them into
  \<open>interface{}\<close>. A \<open>map[string]interface{}\<close> is an association list read with
  \<open>map_of\<close>; integers are int64, other numbers float64 (kept as their 64 bits).
\<close>

datatype json =
    JNull
  | JBool bool
  | JInt64 "64 word"
  | JFloat64 "64 word"
  | JString string
  | JSlice "json list"
  | JMap "(string \<times> json) list"

type_synonym document = "(string \<times> json) list"

text \<open>
  The accessors of package unstructured. Each returns (value, found, error): a missing
  key, or a nil value on the way, is "not found" without error; a value of the wrong
  type, on the way or at the end, is an error.
\<close>

fun NestedFieldNoCopy :: "json \<Rightarrow> string list \<Rightarrow> json \<times> bool \<times> error option" where
  "NestedFieldNoCopy val [] = (val, True, None)"
| "NestedFieldNoCopy val (field # rest) =
     (case val of
        JNull \<Rightarrow> (JNull, False, None)
      | JMap m \<Rightarrow>
          (case map_of m field of
             None \<Rightarrow> (JNull, False, None)
           | Some v \<Rightarrow> NestedFieldNoCopy v rest)
      | _ \<Rightarrow> (JNull, False, Some (PlainError ''accessor error: expected map[string]interface{}'')))"

definition NestedSlice :: "document \<Rightarrow> string list \<Rightarrow> json list \<times> bool \<times> error option" where
  "NestedSlice obj path =
     (case NestedFieldNoCopy (JMap obj) path of
        (val, found, err) \<Rightarrow>
          if \<not> found \<or> err \<noteq> None then ([], found, err)
          else (case val of
                  JSlice xs \<Rightarrow> (xs, True, None)
                | _ \<Rightarrow> ([], False, Some (PlainError ''accessor error: expected []interface{}''))))"

definition NestedString :: "document \<Rightarrow> string list \<Rightarrow> string \<times> bool \<times> error option" where
  "NestedString obj path =
     (case NestedFieldNoCopy (JMap obj) path of
        (val, found, err) \<Rightarrow>
          if \<not> found \<or> err \<noteq> None then ([], found, err)
          else (case val of
                  JString s \<Rightarrow> (s, True, None)
                | _ \<Rightarrow> ([], False, Some (PlainError ''accessor error: expected string''))))"

definition NestedInt64 :: "document \<Rightarrow> string list \<Rightarrow> 64 word \<times> bool \<times> error option" where
  "NestedInt64 obj path =
     (case NestedFieldNoCopy (JMap obj) path of
        (val, found, err) \<Rightarrow>
          if \<not> found \<or> err \<noteq> None then (0, found, err)
          else (case val of
                  JInt64 n \<Rightarrow> (n, True, None)
                | _ \<Rightarrow> (0, False, Some (PlainError ''accessor error: expected int64''))))"

text \<open>
  \<open>schema.ParseGroupVersion\<close>: the empty string and \<open>/\<close> are the empty group and
  version; a string without slash is a version of the core group; one slash separates
  group and version; more slashes are an error.
\<close>

definition ParseGroupVersion :: "string \<Rightarrow> error + (string \<times> string)" where
  "ParseGroupVersion gv =
     (if gv = [] \<or> gv = ''/'' then Inr ([], [])
      else (case count_list gv (CHR ''/'') of
              0 \<Rightarrow> Inr ([], gv)
            | Suc 0 \<Rightarrow> Inr (takeWhile (\<lambda>c. c \<noteq> CHR ''/'') gv,
                            drop 1 (dropWhile (\<lambda>c. c \<noteq> CHR ''/'') gv))
            | Suc (Suc n) \<Rightarrow> Inl (PlainError (''unexpected GroupVersion string: '' @ gv))))"

section \<open>The collaborators: API client, helper and controller-runtime\<close>

type_synonym GroupVersionKind = "string \<times> string \<times> string"
type_synonym NamespacedName = "string \<times> string"

record PolicyRule =
  Verbs :: "string list"
  APIGroups :: "string list"
  Resources :: "string list"
  ResourceNames :: "string list"
  NonResourceURLs :: "string list"

text \<open>An \<open>rbacv1.ClusterRole\<close>: the metadata the reconciler touches, and the rules.\<close>

record rbacClusterRole =
  ObjectName :: string
  ObjectNamespace :: string
  Labels :: "string \<rightharpoonup> string"
  Annotations :: "string \<rightharpoonup> string"
  Rules :: "PolicyRule list"
  OwnerReferences :: "OwnerReference list"

text \<open>
  The API client is outside the library: what it answers is an input. \<open>Get\<close> is the
  read of an unstructured object by kind and name, \<open>Patch\<close> takes the object and the
  object the merge patch starts from; the other four are the calls on ClusterRoles.
\<close>

record Client =
  Get :: "GroupVersionKind \<Rightarrow> NamespacedName \<Rightarrow> error + document"
  Patch :: "Object \<Rightarrow> Object \<Rightarrow> error option"
  GetClusterRole :: "NamespacedName \<Rightarrow> error + rbacClusterRole"
  CreateClusterRole :: "rbacClusterRole \<Rightarrow> error option"
  PatchClusterRole :: "rbacClusterRole \<Rightarrow> rbacClusterRole \<Rightarrow> error option"
  DeleteClusterRole :: "rbacClusterRole \<Rightarrow> error option"

text \<open>A \<open>runtime.Scheme\<close>: the registered (apiVersion, kind) pairs.\<close>

datatype Scheme = Scheme "(string \<times> string) list"

text \<open>The \<open>helper.Helper\<close> behind its accessor methods (the logger apart).\<close>

record Helper =
  GetClient :: Client
  GetScheme :: Scheme
  GetBeforeObject :: Object

datatype OperationResult =
    OperationResultNone
  | OperationResultCreated
  | OperationResultUpdated

type_synonym MutateFn = "rbacClusterRole \<Rightarrow> error option \<times> rbacClusterRole"

text \<open>
  The functions of sigs.k8s.io/controller-runtime that the library calls are parameters
  of the model. The two reference setters change an object's owner references only:
  they take the list and return the error with the list they leave behind.
  \<open>MergeFromData\<close> is \<open>client.MergeFrom(before).Data(after)\<close> followed by
  \<open>json.Unmarshal\<close>: the merge patch as a map from top-level keys, or the error of
  either step. \<open>controllerutil_CreateOrPatch\<close> returns the operation, the error and the
  object it leaves in the caller's variable.
\<close>

record Controllerutil =
  SetControllerReference ::
    "Object \<Rightarrow> OwnerReference list \<Rightarrow> Scheme \<Rightarrow> error option \<times> OwnerReference list"
  SetOwnerReference ::
    "Object \<Rightarrow> OwnerReference list \<Rightarrow> Scheme \<Rightarrow> error option \<times> OwnerReference list"
  MergeFromData :: "Object \<Rightarrow> Object \<Rightarrow> error + document"
  controllerutil_CreateOrPatch ::
    "Client \<Rightarrow> rbacClusterRole \<Rightarrow> MutateFn
       \<Rightarrow> OperationResult \<times> error option \<times> rbacClusterRole"

section \<open>Package object (object.go)\<close>

text \<open>
  \<open>slices.IndexFunc\<close>: the index of the first element that satisfies \<open>f\<close>, or -1; the
  loop runs with its index.
\<close>

fun indexLoop :: "int \<Rightarrow> 'a list \<Rightarrow> ('a \<Rightarrow> bool) \<Rightarrow> int" where
  "indexLoop i [] f = - 1"
| "indexLoop i (x # xs) f = (if f x then i else indexLoop (i + 1) xs f)"

definition IndexFunc :: "'a list \<Rightarrow> ('a \<Rightarrow> bool) \<Rightarrow> int" where
  "IndexFunc s f = indexLoop 0 s f"

definition CheckOwnerRefExist :: "string \<Rightarrow> OwnerReference list \<Rightarrow> bool" where
  "CheckOwnerRefExist uid ownerRefs =
     (let f = (\<lambda>ref. UID ref = uid);
          idx = IndexFunc ownerRefs f
      in if idx \<ge> 0 then True else False)"

text \<open>
  PatchOwnerRef returns (patchDiff, patch, error) and has mutated \<open>object\<close> when it
  returns: the result is the sum of the error and the pair (patchDiff, patch), next
  to the object as it is left. The patch is identified with the copy it starts from.
\<close>

definition PatchOwnerRef ::
  "Controllerutil \<Rightarrow> Object \<Rightarrow> Object \<Rightarrow> Scheme \<Rightarrow> (error + document \<times> Object) \<times> Object" where
  "PatchOwnerRef cu owner object scheme =
     (let beforeObject = object;
          (err, refs) = SetOwnerReference cu owner (GetOwnerReferences object) scheme;
          object1 = object\<lparr>GetOwnerReferences := refs\<rparr>
      in case err of
           Some e \<Rightarrow> (Inl e, object1)
         | None \<Rightarrow>
             (case MergeFromData cu beforeObject object1 of
                Inl e \<Rightarrow> (Inl e, object1)
              | Inr patchDiff \<Rightarrow> (Inr (patchDiff, beforeObject), object1)))"

text \<open>
  EnsureOwnerRef returns its error, the object as it is left, and the calls it made on
  the client, in order (the logger is left out: it takes no part in the result).
\<close>

datatype ClientCall = PatchCall Object Object

definition EnsureOwnerRef ::
  "Controllerutil \<Rightarrow> Helper \<Rightarrow> Object \<Rightarrow> Object \<Rightarrow> error option \<times> Object \<times> ClientCall list" where
  "EnsureOwnerRef cu h owner object =
     (case PatchOwnerRef cu owner object (GetScheme h) of
        (Inl err, object1) \<Rightarrow> (Some err, object1, [])
      | (Inr (patchDiff, patch), object1) \<Rightarrow>
          (case map_of patchDiff ''metadata'' of
             Some d \<Rightarrow>
               (let err = Patch (GetClient h) object1 patch
                in if IsConflict err then
                     (Some (WrappedError ''error metadata update conflict: '' (the err)),
                      object1, [PatchCall object1 patch])
                   else if err \<noteq> None \<and> \<not> IsNotFound err then
                     (Some (WrappedError ''error metadata update failed: '' (the err)),
                      object1, [PatchCall object1 patch])
                   else (None, object1, [PatchCall object1 patch]))
           | None \<Rightarrow> (None, object1, [])))"

text \<open>
  IsOwnerServiceReady, first loop: the first owner reference whose \<open>Controller\<close>
  pointer is set and points to true.
\<close>

fun controllerOwnerRef :: "OwnerReference list \<Rightarrow> OwnerReference option" where
  "controllerOwnerRef [] = None"
| "controllerOwnerRef (owner # rest) =
     (if Controller owner \<noteq> None \<and> the (Controller owner) then Some owner
      else controllerOwnerRef rest)"

text \<open>
  Second loop: \<open>isReady\<close> after the scan of the conditions. An entry that is not a map
  is skipped; a type or status that is missing or not a string reads as the empty
  string.
\<close>

fun isReadyLoop :: "json list \<Rightarrow> bool" where
  "isReadyLoop [] = False"
| "isReadyLoop (c # rest) =
     (case c of
        JMap condition \<Rightarrow>
          (let condType = fst (NestedString condition [''type'']);
               status = fst (NestedString condition [''status''])
           in if condType = ''Ready'' \<and> status = ''True'' then True else isReadyLoop rest)
      | _ \<Rightarrow> isReadyLoop rest)"

text \<open>The part of IsOwnerServiceReady that evaluates the fetched owner (from line 273).\<close>

definition ownerStatusReady :: "document \<Rightarrow> bool \<times> error option" where
  "ownerStatusReady owner =
     (case NestedSlice owner [''status'', ''conditions''] of
        (conditions, found, err) \<Rightarrow>
          if err \<noteq> None \<or> \<not> found then (False, None)
          else if \<not> isReadyLoop conditions then (False, None)
          else (case NestedInt64 owner [''metadata'', ''generation''] of
                  (generation, foundGen, err1) \<Rightarrow>
                    if err1 \<noteq> None \<or> \<not> foundGen then (False, None)
                    else (case NestedInt64 owner [''status'', ''observedGeneration''] of
                            (observedGeneration, foundObsGen, err2) \<Rightarrow>
                              if err2 \<noteq> None \<or> \<not> foundObsGen then (False, None)
                              else if observedGeneration \<noteq> generation then (False, None)
                              else (True, None))))"

definition IsOwnerServiceReady :: "Helper \<Rightarrow> Object \<Rightarrow> bool \<times> error option" where
  "IsOwnerServiceReady h obj =
     (case controllerOwnerRef (GetOwnerReferences obj) of
        None \<Rightarrow> (True, None)
      | Some ownerRef \<Rightarrow>
          (case ParseGroupVersion (APIVersion ownerRef) of
             Inl err \<Rightarrow> (False, Some err)
           | Inr gv \<Rightarrow>
               (case Get (GetClient h) (fst gv, snd gv, Kind ownerRef)
                       (GetNamespace obj, Name ownerRef) of
                  Inl err \<Rightarrow>
                    if IsNotFound (Some err) then (True, None) else (False, Some err)
                | Inr owner \<Rightarrow> ownerStatusReady owner)))"

text \<open>
  A sequence of EnsureOwnerRef calls with the same owner on the same object, one
  helper (and so one state of the API client) for each call; the result is the object
  as the last call leaves it.
\<close>

fun EnsureOwnerRefCalls :: "Controllerutil \<Rightarrow> Helper list \<Rightarrow> Object \<Rightarrow> Object \<Rightarrow> Object" where
  "EnsureOwnerRefCalls cu [] owner object = object"
| "EnsureOwnerRefCalls cu (h # hs) owner object =
     EnsureOwnerRefCalls cu hs owner (fst (snd (EnsureOwnerRef cu h owner object)))"

section \<open>Package clusterrole (clusterrole.go)\<close>

type_synonym Duration = "64 word"

text \<open>The struct of the package (its declaration is not in clusterrole.go): the two fields
  NewClusterRole sets.\<close>

record ClusterRole =
  clusterrole :: rbacClusterRole
  timeout :: Duration

definition NewClusterRole :: "rbacClusterRole \<Rightarrow> Duration \<Rightarrow> ClusterRole" where
  "NewClusterRole cr t = \<lparr>clusterrole = cr, timeout = t\<rparr>"

text \<open>A \<open>ctrl.Result\<close>.\<close>

record Result =
  Requeue :: bool
  RequeueAfter :: Duration

text \<open>Modelled from the spec: \<open>util.MergeStringMaps\<close> is not among the sources. The spec
  has the maps merged, the desired map (the second argument of both calls) winning
  on a key that both hold.
\<close>

definition MergeStringMaps :: "(string \<rightharpoonup> string) \<Rightarrow> (string \<rightharpoonup> string) \<Rightarrow> (string \<rightharpoonup> string)" where
  "MergeStringMaps baseMap extraMap = baseMap ++ extraMap"

text \<open>Modelled from the spec: \<open>util.WrapErrorForObject\<close> is not among the sources. The spec
  has the failure wrapped with the name and type of the resource and propagated.
\<close>

definition WrapErrorForObject :: "string \<Rightarrow> rbacClusterRole \<Rightarrow> error \<Rightarrow> error" where
  "WrapErrorForObject msg object err =
     WrappedError (msg @ '' ClusterRole '' @ ObjectNamespace object @ ''/''
                     @ ObjectName object @ '': '') err"

text \<open>
  The function literal that CreateOrPatch hands to controllerutil.CreateOrPatch
  (lines 57 to 67). It works on the variable \<open>clusterrole\<close>, which holds the live
  object when the literal runs; \<open>r\<close> holds the desired one.
\<close>

definition CreateOrPatch_mutate ::
  "Controllerutil \<Rightarrow> ClusterRole \<Rightarrow> Helper \<Rightarrow> rbacClusterRole
     \<Rightarrow> error option \<times> rbacClusterRole" where
  "CreateOrPatch_mutate cu r h cr =
     (let cr1 = cr\<lparr>Labels := MergeStringMaps (Labels cr) (Labels (clusterrole r))\<rparr>;
          cr2 = cr1\<lparr>Annotations := MergeStringMaps (Labels cr1) (Annotations (clusterrole r))\<rparr>;
          cr3 = cr2\<lparr>Rules := Rules (clusterrole r)\<rparr>;
          (err, refs) = SetControllerReference cu (GetBeforeObject h) (OwnerReferences cr3)
                          (GetScheme h)
      in (err, cr3\<lparr>OwnerReferences := refs\<rparr>))"

text \<open>
  The object CreateOrPatch starts from: \<open>&rbacv1.ClusterRole{ObjectMeta: {Name, Namespace}}\<close>,
  every other field at its zero value.
\<close>

definition namedClusterRole :: "string \<Rightarrow> string \<Rightarrow> rbacClusterRole" where
  "namedClusterRole name namespace =
     \<lparr>ObjectName = name, ObjectNamespace = namespace, Labels = Map.empty,
      Annotations = Map.empty, Rules = [], OwnerReferences = []\<rparr>"

definition CreateOrPatch :: "Controllerutil \<Rightarrow> ClusterRole \<Rightarrow> Helper \<Rightarrow> Result \<times> error option" where
  "CreateOrPatch cu r h =
     (let cr0 = namedClusterRole (ObjectName (clusterrole r)) (ObjectNamespace (clusterrole r));
          (op, err, cr) = controllerutil_CreateOrPatch cu (GetClient h) cr0
                            (CreateOrPatch_mutate cu r h)
      in if err \<noteq> None then
           (if IsNotFound err then (\<lparr>Requeue = False, RequeueAfter = timeout r\<rparr>, None)
            else (\<lparr>Requeue = False, RequeueAfter = 0\<rparr>,
                  Some (WrapErrorForObject (''Error creating clusterrole '' @ ObjectName cr)
                          cr (the err))))
         else (\<lparr>Requeue = False, RequeueAfter = 0\<rparr>, None))"

definition Delete :: "ClusterRole \<Rightarrow> Helper \<Rightarrow> error option" where
  "Delete r h =
     (let err = DeleteClusterRole (GetClient h) (clusterrole r)
      in if err \<noteq> None \<and> \<not> IsNotFound err then
           Some (WrappedError (''Error deleting clusterrole '' @ ObjectName (clusterrole r)
                                 @ '': '') (the err))
         else None)"

section \<open>Instances of the collaborators\<close>

text \<open>Modelled from the spec: \<open>controllerutil.SetOwnerReference\<close> is not among the
  sources. The spec has it set the standard fields of a non-controller owner
  reference on the target in memory, do nothing when the target already has the owner
  as an owner reference, and keep the references unique by UID.
\<close>

definition ownerReferenceTo :: "Object \<Rightarrow> OwnerReference" where
  "ownerReferenceTo owner =
     \<lparr>APIVersion = GetAPIVersion owner, Kind = GetKind owner, Name = GetName owner,
      UID = GetUID owner, Controller = None, BlockOwnerDeletion = None\<rparr>"

definition modelSetOwnerReference ::
  "Object \<Rightarrow> OwnerReference list \<Rightarrow> Scheme \<Rightarrow> error option \<times> OwnerReference list" where
  "modelSetOwnerReference owner refs scheme =
     (if CheckOwnerRefExist (GetUID owner) refs then (None, refs)
      else (None, refs @ [ownerReferenceTo owner]))"

text \<open>Modelled from the spec: \<open>controllerutil.SetControllerReference\<close> is not among the
  sources. The spec has it set a controller owner reference, of which an object has at
  most one.
\<close>

definition modelSetControllerReference ::
  "Object \<Rightarrow> OwnerReference list \<Rightarrow> Scheme \<Rightarrow> error option \<times> OwnerReference list" where
  "modelSetControllerReference owner refs scheme =
     (case controllerOwnerRef refs of
        Some ref \<Rightarrow>
          if UID ref = GetUID owner then (None, refs)
          else (Some (PlainError ''object is already owned by another controller''), refs)
      | None \<Rightarrow>
          (None, filter (\<lambda>ref. UID ref \<noteq> GetUID owner) refs
                 @ [(ownerReferenceTo owner)\<lparr>Controller := Some True,
                                              BlockOwnerDeletion := Some True\<rparr>]))"

text \<open>Modelled from the spec: the merge patch of \<open>client.MergeFrom\<close> is not among the
  sources. The spec has it the minimal metadata patch, the difference of the object
  before and after, empty when the two agree.
\<close>

definition ownerReferenceJSON :: "OwnerReference \<Rightarrow> json" where
  "ownerReferenceJSON ref =
     JMap ([(''apiVersion'', JString (APIVersion ref)), (''kind'', JString (Kind ref)),
            (''name'', JString (Name ref)), (''uid'', JString (UID ref))]
           @ (case Controller ref of None \<Rightarrow> [] | Some b \<Rightarrow> [(''controller'', JBool b)])
           @ (case BlockOwnerDeletion ref of
                None \<Rightarrow> [] | Some b \<Rightarrow> [(''blockOwnerDeletion'', JBool b)]))"

definition modelMergeFromData :: "Object \<Rightarrow> Object \<Rightarrow> error + document" where
  "modelMergeFromData before after =
     (if GetOwnerReferences after = GetOwnerReferences before then Inr []
      else Inr [(''metadata'',
                 JMap [(''ownerReferences'',
                        JSlice (map ownerReferenceJSON (GetOwnerReferences after)))])])"

text \<open>Modelled from the spec: \<open>controllerutil.CreateOrPatch\<close> is not among the sources. The
  spec has it look the live object up by name, create the object when it is absent,
  and patch it when it is present; the mutation runs on the object read.
\<close>

definition modelCreateOrPatch ::
  "Client \<Rightarrow> rbacClusterRole \<Rightarrow> MutateFn \<Rightarrow> OperationResult \<times> error option \<times> rbacClusterRole" where
  "modelCreateOrPatch c obj f =
     (case GetClusterRole c (ObjectNamespace obj, ObjectName obj) of
        Inl e \<Rightarrow>
          if \<not> IsNotFound (Some e) then (OperationResultNone, Some e, obj)
          else (case f obj of
                  (Some e1, obj1) \<Rightarrow> (OperationResultNone, Some e1, obj1)
                | (None, obj1) \<Rightarrow>
                    (case CreateClusterRole c obj1 of
                       Some e2 \<Rightarrow> (OperationResultNone, Some e2, obj1)
                     | None \<Rightarrow> (OperationResultCreated, None, obj1)))
      | Inr live \<Rightarrow>
          (case f live of
             (Some e1, obj1) \<Rightarrow> (OperationResultNone, Some e1, obj1)
           | (None, obj1) \<Rightarrow>
               if obj1 = live then (OperationResultNone, None, obj1)
               else (case PatchClusterRole c obj1 live of
                       Some e2 \<Rightarrow> (OperationResultNone, Some e2, obj1)
                     | None \<Rightarrow> (OperationResultUpdated, None, obj1))))"

definition modelControllerutil :: Controllerutil where
  "modelControllerutil =
     \<lparr>SetControllerReference = modelSetControllerReference,
      SetOwnerReference = modelSetOwnerReference,
      MergeFromData = modelMergeFromData,
      controllerutil_CreateOrPatch = modelCreateOrPatch\<rparr>"

text \<open>
  The client of a cluster that holds no object: every read, patch and delete answers
  not-found, a create succeeds.
\<close>

definition notFound :: "string \<Rightarrow> error" where
  "notFound name = StatusError StatusReasonNotFound (name @ '' not found'')"

definition emptyCluster :: Client where
  "emptyCluster =
     \<lparr>Get = (\<lambda>gvk key. Inl (notFound (snd key))),
      Patch = (\<lambda>object patch. Some (notFound (GetName object))),
      GetClusterRole = (\<lambda>key. Inl (notFound (snd key))),
      CreateClusterRole = (\<lambda>object. None),
      PatchClusterRole = (\<lambda>object patch. Some (notFound (ObjectName object))),
      DeleteClusterRole = (\<lambda>object. Some (notFound (ObjectName object)))\<rparr>"

section \<open>Example objects\<close>

text \<open>
  The objects of the functional tests: a ConfigMap whose controller owner is a
  Deployment, the Deployment as the API server returns it, and a helper on a client
  that holds the Deployment.
\<close>

definition deploymentRef :: OwnerReference where
  "deploymentRef =
     \<lparr>APIVersion = ''apps/v1'', Kind = ''Deployment'', Name = ''owner-deployment'',
      UID = ''uid-deployment'', Controller = Some True, BlockOwnerDeletion = None\<rparr>"

definition configMap :: "string \<Rightarrow> string \<Rightarrow> OwnerReference list \<Rightarrow> Object" where
  "configMap name uid refs =
     \<lparr>GetAPIVersion = ''v1'', GetKind = ''ConfigMap'', GetNamespace = ''test-namespace'',
      GetName = name, GetUID = uid, GetOwnerReferences = refs\<rparr>"

definition deploymentDocument :: "json \<Rightarrow> json \<Rightarrow> json \<Rightarrow> document" where
  "deploymentDocument generation observedGeneration conditions =
     [(''apiVersion'', JString ''apps/v1''), (''kind'', JString ''Deployment''),
      (''metadata'', JMap [(''name'', JString ''owner-deployment''),
                           (''namespace'', JString ''test-namespace''),
                           (''generation'', generation)]),
      (''status'', JMap [(''observedGeneration'', observedGeneration),
                         (''conditions'', conditions)])]"

definition condition :: "string \<Rightarrow> string \<Rightarrow> json" where
  "condition condType status = JMap [(''type'', JString condType), (''status'', JString status)]"

definition clusterHolding :: "GroupVersionKind \<Rightarrow> NamespacedName \<Rightarrow> document \<Rightarrow> Client" where
  "clusterHolding gvk key doc =
     emptyCluster\<lparr>Get := (\<lambda>gvk1 key1. if gvk1 = gvk \<and> key1 = key then Inr doc
                                       else Inl (notFound (snd key1)))\<rparr>"

definition deploymentCluster :: "document \<Rightarrow> Client" where
  "deploymentCluster doc =
     clusterHolding (''apps'', ''v1'', ''Deployment'') (''test-namespace'', ''owner-deployment'') doc"

definition helperOn :: "Client \<Rightarrow> Helper" where
  "helperOn c =
     \<lparr>GetClient = c,
      GetScheme = Scheme [(''v1'', ''ConfigMap''), (''apps/v1'', ''Deployment'')],
      GetBeforeObject = configMap ''controller-cm'' ''uid-controller'' []\<rparr>"

definition conflictError :: error where
  "conflictError = StatusError StatusReasonConflict ''the object has been modified''"

definition internalError :: error where
  "internalError = StatusError StatusReasonInternalError ''etcd is unavailable''"

text \<open>A client on which every call fails with the same error.\<close>

definition brokenCluster :: "error \<Rightarrow> Client" where
  "brokenCluster e =
     \<lparr>Get = (\<lambda>gvk key. Inl e),
      Patch = (\<lambda>object patch. Some e),
      GetClusterRole = (\<lambda>key. Inl e),
      CreateClusterRole = (\<lambda>object. Some e),
      PatchClusterRole = (\<lambda>object patch. Some e),
      DeleteClusterRole = (\<lambda>object. Some e)\<rparr>"

definition childConfigMap :: Object where
  "childConfigMap = configMap ''child-cm'' ''uid-child'' [deploymentRef]"

definition reconciledDeployment :: document where
  "reconciledDeployment =
     deploymentDocument (JInt64 2) (JInt64 2)
       (JSlice [condition ''Available'' ''True'', condition ''Ready'' ''True''])"

definition staleDeployment :: document where
  "staleDeployment =
     deploymentDocument (JInt64 2) (JInt64 1)
       (JSlice [condition ''Available'' ''True'', condition ''Ready'' ''True''])"

definition notReadyDeployment :: document where
  "notReadyDeployment =
     deploymentDocument (JInt64 2) (JInt64 2) (JSlice [condition ''Ready'' ''False''])"

definition statuslessDeployment :: document where
  "statuslessDeployment =
     [(''apiVersion'', JString ''apps/v1''), (''kind'', JString ''Deployment''),
      (''metadata'', JMap [(''name'', JString ''owner-deployment''),
                           (''namespace'', JString ''test-namespace''),
                           (''generation'', JInt64 1)])]"

definition unobservedDeployment :: document where
  "unobservedDeployment =
     deploymentDocument (JInt64 2) (JString ''2'') (JSlice [condition ''Ready'' ''True''])"

definition malformedRef :: OwnerReference where
  "malformedRef = deploymentRef\<lparr>APIVersion := ''apps/v1/beta''\<rparr>"

definition ownerConfigMap :: Object where
  "ownerConfigMap = configMap ''test-owner'' ''uid-owner'' []"

definition targetConfigMap :: Object where
  "targetConfigMap = configMap ''test-cm'' ''uid-cm'' []"

text \<open>A live ClusterRole and a desired one that share no label and no annotation key.\<close>

definition liveClusterRole :: rbacClusterRole where
  "liveClusterRole =
     \<lparr>ObjectName = ''nova-role'', ObjectNamespace = [],
      Labels = [''app'' \<mapsto> ''nova''], Annotations = [''note'' \<mapsto> ''keep''],
      Rules = [], OwnerReferences = []\<rparr>"

definition desiredClusterRole :: rbacClusterRole where
  "desiredClusterRole =
     \<lparr>ObjectName = ''nova-role'', ObjectNamespace = [],
      Labels = Map.empty, Annotations = Map.empty,
      Rules = [\<lparr>Verbs = [''get''], APIGroups = [[]], Resources = [''pods''],
                ResourceNames = [], NonResourceURLs = []\<rparr>],
      OwnerReferences = []\<rparr>"

text \<open>The reconciler of the desired ClusterRole, with a timeout of five seconds.\<close>

definition roleReconciler :: ClusterRole where
  "roleReconciler = NewClusterRole desiredClusterRole 5000000000"

text \<open>
  The spec's wording of a condition entry that is ready: a map whose \<open>type\<close> is the
  string Ready and whose \<open>status\<close> is the string True.
\<close>

definition readyTrueEntry :: "json \<Rightarrow> bool" where
  "readyTrueEntry c =
     (case c of
        JMap m \<Rightarrow> map_of m ''type'' = Some (JString ''Ready'')
                  \<and> map_of m ''status'' = Some (JString ''True'')
      | _ \<Rightarrow> False)"

section \<open>Properties of the deprecated-field validators\<close>

text \<open>
  Claim C9. ValidateDeprecatedFieldConflict returns the empty warning and no error when
  both values are empty and when only the new value is set; a non-empty warning and no
  error when only the deprecated value is set; when both are set to the same value, a
  non-empty warning and no error if allowBothIfSame holds and an error if it does not;
  and an error, whatever the flag, when both are set to different values.
\<close>

theorem ValidateDeprecatedFieldConflict_cases:
  "ValidateDeprecatedFieldConflict [] [] dp np allow = ([], None)
   \<and> (nv \<noteq> [] \<longrightarrow> ValidateDeprecatedFieldConflict [] nv dp np allow = ([], None))
   \<and> (dv \<noteq> [] \<longrightarrow>
        fst (ValidateDeprecatedFieldConflict dv [] dp np allow) \<noteq> []
        \<and> snd (ValidateDeprecatedFieldConflict dv [] dp np allow) = None)
   \<and> (dv \<noteq> [] \<longrightarrow>
        fst (ValidateDeprecatedFieldConflict dv dv dp np True) \<noteq> []
        \<and> snd (ValidateDeprecatedFieldConflict dv dv dp np True) = None)
   \<and> (dv \<noteq> [] \<longrightarrow> snd (ValidateDeprecatedFieldConflict dv dv dp np False) \<noteq> None)
   \<and> (dv \<noteq> [] \<and> nv \<noteq> [] \<and> dv \<noteq> nv \<longrightarrow>
        snd (ValidateDeprecatedFieldConflict dv nv dp np allow) \<noteq> None)"
  by (simp add: ValidateDeprecatedFieldConflict_def)

theorem ValidateDeprecatedFieldConflict_cases_witness:
  "''cluster-1'' \<noteq> [] \<and> ''cluster-2'' \<noteq> [] \<and> ''cluster-1'' \<noteq> ''cluster-2''
   \<and> ValidateDeprecatedFieldConflict [] ''cluster-2'' (NewPath ''old'') (NewPath ''new'') False
       = ([], None)
   \<and> fst (ValidateDeprecatedFieldConflict ''cluster-1'' [] (NewPath ''old'') (NewPath ''new'')
            False) \<noteq> []
   \<and> snd (ValidateDeprecatedFieldConflict ''cluster-1'' [] (NewPath ''old'') (NewPath ''new'')
            False) = None
   \<and> fst (ValidateDeprecatedFieldConflict ''cluster-1'' ''cluster-1'' (NewPath ''old'')
            (NewPath ''new'') True) \<noteq> []
   \<and> snd (ValidateDeprecatedFieldConflict ''cluster-1'' ''cluster-1'' (NewPath ''old'')
            (NewPath ''new'') False) \<noteq> None
   \<and> snd (ValidateDeprecatedFieldConflict ''cluster-1'' ''cluster-2'' (NewPath ''old'')
            (NewPath ''new'') False) \<noteq> None"
  using ValidateDeprecatedFieldConflict_cases
          [of "NewPath ''old''" "NewPath ''new''" False "''cluster-2''" "''cluster-1''"]
  by simp

lemma createLoop_append:
  "createLoop dfs basePath acc =
     acc @ filter (\<lambda>w. w \<noteq> [])
             (map (\<lambda>df. fst (ValidateDeprecatedFieldConflictPtr (DeprecatedValue df) (NewValue df)
                               (Child basePath (DeprecatedFieldName df))
                               (newPathOf basePath (NewFieldPath df)) True)) dfs)"
  by (induction dfs arbitrary: acc) (simp_all add: Let_def)

text \<open>
  Claim C10. ValidateDeprecatedFieldsCreate returns warnings only: its result is the list
  of the non-empty warnings of the per-field conflict checks, in order, whatever errors
  those checks produce. A field whose deprecated value and new value are set and differ
  makes the conflict check return an error, and the create passes with nothing
  reported.
\<close>

theorem ValidateDeprecatedFieldsCreate_discards_errors:
  "ValidateDeprecatedFieldsCreate dfs basePath =
     filter (\<lambda>w. w \<noteq> [])
       (map (\<lambda>df. fst (ValidateDeprecatedFieldConflictPtr (DeprecatedValue df) (NewValue df)
                         (Child basePath (DeprecatedFieldName df))
                         (newPathOf basePath (NewFieldPath df)) True)) dfs)
   \<and> (a \<noteq> [] \<and> b \<noteq> [] \<and> a \<noteq> b \<longrightarrow>
        snd (ValidateDeprecatedFieldConflictPtr (Some a) (Some b) (Child basePath name)
               (newPathOf basePath segments) True) \<noteq> None
        \<and> ValidateDeprecatedFieldsCreate
            [\<lparr>DeprecatedFieldName = name, NewFieldPath = segments,
              DeprecatedValue = Some a, NewValue = Some b\<rparr>] basePath = [])"
  by (simp add: ValidateDeprecatedFieldsCreate_def createLoop_append
        ValidateDeprecatedFieldConflictPtr_def ValidateDeprecatedFieldConflict_def deref_def)

theorem ValidateDeprecatedFieldsCreate_discards_errors_witness:
  "''cluster-1'' \<noteq> [] \<and> ''cluster-2'' \<noteq> [] \<and> ''cluster-1'' \<noteq> ''cluster-2''
   \<and> snd (ValidateDeprecatedFieldConflictPtr (Some ''cluster-1'') (Some ''cluster-2'')
            (Child (NewPath ''spec'') ''rabbitMqClusterName'')
            (newPathOf (NewPath ''spec'') [''messagingBus'', ''cluster'']) True) \<noteq> None
   \<and> ValidateDeprecatedFieldsCreate
        [\<lparr>DeprecatedFieldName = ''rabbitMqClusterName'',
          NewFieldPath = [''messagingBus'', ''cluster''],
          DeprecatedValue = Some ''cluster-1'', NewValue = Some ''cluster-2''\<rparr>]
        (NewPath ''spec'') = []"
  using ValidateDeprecatedFieldsCreate_discards_errors
          [of "[]" "NewPath ''spec''" "''cluster-1''" "''cluster-2''" "''rabbitMqClusterName''"
              "[''messagingBus'', ''cluster'']"]
  by simp

section \<open>Properties of package object: the owner-reference list\<close>

lemma indexLoop_nonneg:
  "0 \<le> i \<Longrightarrow> (0 \<le> indexLoop i xs f) = (\<exists>x\<in>set xs. f x)"
  by (induction xs arbitrary: i) auto

lemma CheckOwnerRefExist_image:
  "CheckOwnerRefExist uid ownerRefs \<longleftrightarrow> uid \<in> UID ` set ownerRefs"
  by (auto simp: CheckOwnerRefExist_def IndexFunc_def indexLoop_nonneg)

text \<open>
  Claim C5. CheckOwnerRefExist returns true if and only if some element of the list has
  the UID. (It is a function of its two arguments into the booleans: the source assigns
  to neither of them, and the model has nothing else to return.)
\<close>

theorem CheckOwnerRefExist_iff:
  "CheckOwnerRefExist uid ownerRefs \<longleftrightarrow> uid \<in> UID ` set ownerRefs"
  by (rule CheckOwnerRefExist_image)

theorem CheckOwnerRefExist_iff_witness:
  "CheckOwnerRefExist ''uid-deployment'' [malformedRef, deploymentRef]
   \<and> \<not> CheckOwnerRefExist ''uid-other'' [malformedRef, deploymentRef]
   \<and> \<not> CheckOwnerRefExist ''uid-deployment'' []"
  using CheckOwnerRefExist_iff [of "''uid-deployment''" "[malformedRef, deploymentRef]"]
    CheckOwnerRefExist_iff [of "''uid-other''" "[malformedRef, deploymentRef]"]
    CheckOwnerRefExist_iff [of "''uid-deployment''" "[]"]
  by (simp add: malformedRef_def deploymentRef_def)

section \<open>Properties of package object: the readiness of the owner\<close>

lemma controllerOwnerRef_Cons:
  "controllerOwnerRef (owner # rest) =
     (if Controller owner = Some True then Some owner else controllerOwnerRef rest)"
  by (cases "Controller owner") auto

lemma controllerOwnerRef_None_iff:
  "controllerOwnerRef refs = None \<longleftrightarrow> Some True \<notin> Controller ` set refs"
proof (induction refs)
  case Nil
  show ?case by simp
next
  case (Cons owner rest)
  then show ?case
    unfolding controllerOwnerRef_Cons by auto
qed

lemma controllerOwnerRef_Some:
  "controllerOwnerRef refs = Some ownerRef \<Longrightarrow> ownerRef \<in> set refs \<and> Controller ownerRef = Some True"
proof (induction refs)
  case Nil
  then show ?case by simp
next
  case (Cons owner rest)
  then show ?case
    unfolding controllerOwnerRef_Cons by (auto split: if_splits)
qed

lemma NestedString_key:
  "s \<noteq> [] \<Longrightarrow> fst (NestedString m [k]) = s \<longleftrightarrow> map_of m k = Some (JString s)"
  by (auto simp: NestedString_def split: option.splits json.splits)

lemma isReadyLoop_iff: "isReadyLoop cs \<longleftrightarrow> (\<exists>c\<in>set cs. readyTrueEntry c)"
proof (induction cs)
  case Nil
  show ?case by simp
next
  case (Cons c cs)
  show ?case
  proof (cases c)
    case (JMap m)
    have entry: "readyTrueEntry (JMap m) =
        (fst (NestedString m [''type'']) = ''Ready'' \<and> fst (NestedString m [''status'']) = ''True'')"
      by (simp add: readyTrueEntry_def NestedString_key)
    show ?thesis
      unfolding JMap by (simp add: Let_def Cons.IH entry [symmetric])
  qed (simp_all add: Cons.IH readyTrueEntry_def)
qed

lemma IsOwnerServiceReady_fetched:
  assumes "controllerOwnerRef (GetOwnerReferences obj) = Some ownerRef"
    and "ParseGroupVersion (APIVersion ownerRef) = Inr gv"
    and "Get (GetClient h) (fst gv, snd gv, Kind ownerRef) (GetNamespace obj, Name ownerRef)
           = Inr owner"
  shows "IsOwnerServiceReady h obj = ownerStatusReady owner"
  using assms by (simp add: IsOwnerServiceReady_def)

text \<open>
  Claim C2. When the fetched owner has a condition entry of type Ready with status True,
  and both generations can be read, IsOwnerServiceReady returns (true, nil) if
  status.observedGeneration equals metadata.generation and (false, nil) if it does not:
  the boolean is the equality of the two, the error is nil.
\<close>

theorem IsOwnerServiceReady_ready_and_reconciled:
  assumes "controllerOwnerRef (GetOwnerReferences obj) = Some ownerRef"
    and "ParseGroupVersion (APIVersion ownerRef) = Inr gv"
    and "Get (GetClient h) (fst gv, snd gv, Kind ownerRef) (GetNamespace obj, Name ownerRef)
           = Inr owner"
    and "NestedSlice owner [''status'', ''conditions''] = (conditions, True, None)"
    and "\<exists>c\<in>set conditions. readyTrueEntry c"
    and "NestedInt64 owner [''metadata'', ''generation''] = (generation, True, None)"
    and "NestedInt64 owner [''status'', ''observedGeneration''] = (observedGeneration, True, None)"
  shows "IsOwnerServiceReady h obj = (observedGeneration = generation, None)"
  using assms(4-7)
  by (simp add: IsOwnerServiceReady_fetched [OF assms(1-3)] ownerStatusReady_def isReadyLoop_iff)

text \<open>
  Claim C3. For a fetched owner, IsOwnerServiceReady returns (false, nil), and no error,
  whenever status.conditions is absent or unreadable, or no condition entry has type
  Ready with status True, or metadata.generation or status.observedGeneration is absent
  or unreadable.
\<close>

theorem IsOwnerServiceReady_waits:
  assumes "controllerOwnerRef (GetOwnerReferences obj) = Some ownerRef"
    and "ParseGroupVersion (APIVersion ownerRef) = Inr gv"
    and "Get (GetClient h) (fst gv, snd gv, Kind ownerRef) (GetNamespace obj, Name ownerRef)
           = Inr owner"
    and "NestedSlice owner [''status'', ''conditions''] = (conditions, found, err)"
    and "NestedInt64 owner [''metadata'', ''generation''] = (generation, foundGen, err1)"
    and "NestedInt64 owner [''status'', ''observedGeneration'']
           = (observedGeneration, foundObsGen, err2)"
    and "\<not> found \<or> err \<noteq> None \<or> \<not> (\<exists>c\<in>set conditions. readyTrueEntry c)
         \<or> \<not> foundGen \<or> err1 \<noteq> None \<or> \<not> foundObsGen \<or> err2 \<noteq> None"
  shows "IsOwnerServiceReady h obj = (False, None)"
  using assms(4-7)
  by (auto simp: IsOwnerServiceReady_fetched [OF assms(1-3)] ownerStatusReady_def isReadyLoop_iff)

text \<open>
  Claim C4. Before it reads any status of the owner, IsOwnerServiceReady returns
  (true, nil) if no owner reference has controller set to true; (false, err) with the
  parse error if the apiVersion of the controller owner does not parse; (true, nil) if
  the fetch of the owner reports not-found; and (false, err) with the error of the
  fetch on any other failure of it.
\<close>

theorem IsOwnerServiceReady_before_status:
  "(Some True \<notin> Controller ` set (GetOwnerReferences obj) \<longrightarrow>
      IsOwnerServiceReady h obj = (True, None))
   \<and> (controllerOwnerRef (GetOwnerReferences obj) = Some ownerRef \<longrightarrow>
        (ParseGroupVersion (APIVersion ownerRef) = Inl err \<longrightarrow>
           IsOwnerServiceReady h obj = (False, Some err))
        \<and> (ParseGroupVersion (APIVersion ownerRef) = Inr gv
             \<and> Get (GetClient h) (fst gv, snd gv, Kind ownerRef)
                   (GetNamespace obj, Name ownerRef) = Inl err \<longrightarrow>
             IsOwnerServiceReady h obj
               = (if IsNotFound (Some err) then (True, None) else (False, Some err))))"
  by (simp add: IsOwnerServiceReady_def controllerOwnerRef_None_iff [symmetric])


lemmas example_defs =
  deploymentRef_def configMap_def deploymentDocument_def condition_def clusterHolding_def
  deploymentCluster_def helperOn_def emptyCluster_def brokenCluster_def childConfigMap_def
  reconciledDeployment_def staleDeployment_def notReadyDeployment_def notFound_def
  conflictError_def internalError_def statuslessDeployment_def unobservedDeployment_def
  malformedRef_def ownerConfigMap_def targetConfigMap_def

lemmas accessor_defs =
  NestedSlice_def NestedInt64_def NestedString_def ParseGroupVersion_def readyTrueEntry_def

theorem IsOwnerServiceReady_ready_and_reconciled_witness:
  "controllerOwnerRef (GetOwnerReferences childConfigMap) = Some deploymentRef
   \<and> ParseGroupVersion (APIVersion deploymentRef) = Inr (''apps'', ''v1'')
   \<and> Get (GetClient (helperOn (deploymentCluster staleDeployment)))
         (''apps'', ''v1'', Kind deploymentRef) (GetNamespace childConfigMap, Name deploymentRef)
       = Inr staleDeployment
   \<and> NestedSlice staleDeployment [''status'', ''conditions'']
       = ([condition ''Available'' ''True'', condition ''Ready'' ''True''], True, None)
   \<and> readyTrueEntry (condition ''Ready'' ''True'')
   \<and> NestedInt64 staleDeployment [''metadata'', ''generation''] = (2, True, None)
   \<and> NestedInt64 staleDeployment [''status'', ''observedGeneration''] = (1, True, None)
   \<and> IsOwnerServiceReady (helperOn (deploymentCluster staleDeployment)) childConfigMap
       = (False, None)
   \<and> IsOwnerServiceReady (helperOn (deploymentCluster reconciledDeployment)) childConfigMap
       = (True, None)"
proof -
  have ref: "controllerOwnerRef (GetOwnerReferences childConfigMap) = Some deploymentRef"
    by (simp add: example_defs)
  have gv: "ParseGroupVersion (APIVersion deploymentRef) = Inr (''apps'', ''v1'')"
    by (simp add: example_defs accessor_defs)
  have get: "Get (GetClient (helperOn (deploymentCluster d)))
      (fst (''apps'', ''v1''), snd (''apps'', ''v1''), Kind deploymentRef)
      (GetNamespace childConfigMap, Name deploymentRef) = Inr d" for d
    by (simp add: example_defs)
  have conds: "NestedSlice staleDeployment [''status'', ''conditions'']
      = ([condition ''Available'' ''True'', condition ''Ready'' ''True''], True, None)"
    "NestedSlice reconciledDeployment [''status'', ''conditions'']
      = ([condition ''Available'' ''True'', condition ''Ready'' ''True''], True, None)"
    by (simp_all add: example_defs accessor_defs)
  have ready: "\<exists>c\<in>set [condition ''Available'' ''True'', condition ''Ready'' ''True''].
      readyTrueEntry c"
    by (simp add: example_defs accessor_defs)
  have gen: "NestedInt64 staleDeployment [''metadata'', ''generation''] = (2, True, None)"
    "NestedInt64 reconciledDeployment [''metadata'', ''generation''] = (2, True, None)"
    by (simp_all add: example_defs accessor_defs)
  have obs: "NestedInt64 staleDeployment [''status'', ''observedGeneration''] = (1, True, None)"
    "NestedInt64 reconciledDeployment [''status'', ''observedGeneration''] = (2, True, None)"
    by (simp_all add: example_defs accessor_defs)
  have entry: "readyTrueEntry (condition ''Ready'' ''True'')"
    by (simp add: example_defs accessor_defs)
  show ?thesis
    using ref gv get [of staleDeployment] conds(1) entry gen(1) obs(1)
      IsOwnerServiceReady_ready_and_reconciled
        [OF ref gv get conds(1) ready gen(1) obs(1)]
      IsOwnerServiceReady_ready_and_reconciled
        [OF ref gv get conds(2) ready gen(2) obs(2)]
    by simp
qed


theorem IsOwnerServiceReady_waits_witness:
  "controllerOwnerRef (GetOwnerReferences childConfigMap) = Some deploymentRef
   \<and> ParseGroupVersion (APIVersion deploymentRef) = Inr (''apps'', ''v1'')
   \<and> Get (GetClient (helperOn (deploymentCluster statuslessDeployment)))
         (''apps'', ''v1'', Kind deploymentRef) (GetNamespace childConfigMap, Name deploymentRef)
       = Inr statuslessDeployment
   \<and> NestedSlice statuslessDeployment [''status'', ''conditions''] = ([], False, None)
   \<and> NestedInt64 statuslessDeployment [''metadata'', ''generation''] = (1, True, None)
   \<and> NestedInt64 statuslessDeployment [''status'', ''observedGeneration''] = (0, False, None)
   \<and> IsOwnerServiceReady (helperOn (deploymentCluster statuslessDeployment)) childConfigMap
       = (False, None)
   \<and> NestedSlice notReadyDeployment [''status'', ''conditions'']
       = ([condition ''Ready'' ''False''], True, None)
   \<and> \<not> readyTrueEntry (condition ''Ready'' ''False'')
   \<and> IsOwnerServiceReady (helperOn (deploymentCluster notReadyDeployment)) childConfigMap
       = (False, None)
   \<and> snd (snd (NestedInt64 unobservedDeployment [''status'', ''observedGeneration''])) \<noteq> None
   \<and> IsOwnerServiceReady (helperOn (deploymentCluster unobservedDeployment)) childConfigMap
       = (False, None)"
proof -
  have ref: "controllerOwnerRef (GetOwnerReferences childConfigMap) = Some deploymentRef"
    by (simp add: example_defs)
  have gv: "ParseGroupVersion (APIVersion deploymentRef) = Inr (''apps'', ''v1'')"
    by (simp add: example_defs accessor_defs)
  have get: "Get (GetClient (helperOn (deploymentCluster d)))
      (fst (''apps'', ''v1''), snd (''apps'', ''v1''), Kind deploymentRef)
      (GetNamespace childConfigMap, Name deploymentRef) = Inr d" for d
    by (simp add: example_defs)
  have c1: "NestedSlice statuslessDeployment [''status'', ''conditions''] = ([], False, None)"
    and g1: "NestedInt64 statuslessDeployment [''metadata'', ''generation''] = (1, True, None)"
    and o1: "NestedInt64 statuslessDeployment [''status'', ''observedGeneration'']
               = (0, False, None)"
    by (simp_all add: example_defs accessor_defs)
  have c2: "NestedSlice notReadyDeployment [''status'', ''conditions'']
              = ([condition ''Ready'' ''False''], True, None)"
    and g2: "NestedInt64 notReadyDeployment [''metadata'', ''generation''] = (2, True, None)"
    and o2: "NestedInt64 notReadyDeployment [''status'', ''observedGeneration'']
               = (2, True, None)"
    and n2: "\<not> readyTrueEntry (condition ''Ready'' ''False'')"
    by (simp_all add: example_defs accessor_defs)
  have c3: "NestedSlice unobservedDeployment [''status'', ''conditions'']
              = ([condition ''Ready'' ''True''], True, None)"
    and g3: "NestedInt64 unobservedDeployment [''metadata'', ''generation''] = (2, True, None)"
    and o3: "NestedInt64 unobservedDeployment [''status'', ''observedGeneration'']
               = (0, False, Some (PlainError ''accessor error: expected int64''))"
    by (simp_all add: example_defs accessor_defs)
  have w1: "IsOwnerServiceReady (helperOn (deploymentCluster statuslessDeployment))
      childConfigMap = (False, None)"
    by (rule IsOwnerServiceReady_waits [OF ref gv get c1 g1 o1]) simp
  have w2: "IsOwnerServiceReady (helperOn (deploymentCluster notReadyDeployment))
      childConfigMap = (False, None)"
    by (rule IsOwnerServiceReady_waits [OF ref gv get c2 g2 o2]) (simp add: n2)
  have w3: "IsOwnerServiceReady (helperOn (deploymentCluster unobservedDeployment))
      childConfigMap = (False, None)"
    by (rule IsOwnerServiceReady_waits [OF ref gv get c3 g3 o3]) simp
  show ?thesis
    using ref gv get [of statuslessDeployment] c1 g1 o1 w1 c2 n2 w2 o3 w3 by simp
qed

theorem IsOwnerServiceReady_before_status_witness:
  "Some True \<notin> Controller ` set (GetOwnerReferences (configMap ''test-cm-no-owner'' ''uid-1'' []))
   \<and> IsOwnerServiceReady (helperOn emptyCluster) (configMap ''test-cm-no-owner'' ''uid-1'' [])
       = (True, None)
   \<and> controllerOwnerRef (GetOwnerReferences (configMap ''child-cm'' ''uid-child'' [malformedRef]))
       = Some malformedRef
   \<and> ParseGroupVersion (APIVersion malformedRef)
       = Inl (PlainError ''unexpected GroupVersion string: apps/v1/beta'')
   \<and> IsOwnerServiceReady (helperOn emptyCluster) (configMap ''child-cm'' ''uid-child'' [malformedRef])
       = (False, Some (PlainError ''unexpected GroupVersion string: apps/v1/beta''))
   \<and> controllerOwnerRef (GetOwnerReferences childConfigMap) = Some deploymentRef
   \<and> ParseGroupVersion (APIVersion deploymentRef) = Inr (''apps'', ''v1'')
   \<and> Get (GetClient (helperOn emptyCluster)) (''apps'', ''v1'', Kind deploymentRef)
         (GetNamespace childConfigMap, Name deploymentRef)
       = Inl (notFound ''owner-deployment'')
   \<and> IsNotFound (Some (notFound ''owner-deployment''))
   \<and> IsOwnerServiceReady (helperOn emptyCluster) childConfigMap = (True, None)
   \<and> Get (GetClient (helperOn (brokenCluster internalError))) (''apps'', ''v1'', Kind deploymentRef)
         (GetNamespace childConfigMap, Name deploymentRef)
       = Inl internalError
   \<and> \<not> IsNotFound (Some internalError)
   \<and> IsOwnerServiceReady (helperOn (brokenCluster internalError)) childConfigMap
       = (False, Some internalError)"
proof -
  have none: "Some True \<notin> Controller `
      set (GetOwnerReferences (configMap ''test-cm-no-owner'' ''uid-1'' []))"
    by (simp add: example_defs)
  have bad: "controllerOwnerRef (GetOwnerReferences (configMap ''child-cm'' ''uid-child''
      [malformedRef])) = Some malformedRef"
    by (simp add: example_defs)
  have badgv: "ParseGroupVersion (APIVersion malformedRef)
      = Inl (PlainError ''unexpected GroupVersion string: apps/v1/beta'')"
    by (simp add: example_defs accessor_defs)
  have ref: "controllerOwnerRef (GetOwnerReferences childConfigMap) = Some deploymentRef"
    by (simp add: example_defs)
  have gv: "ParseGroupVersion (APIVersion deploymentRef) = Inr (''apps'', ''v1'')"
    by (simp add: example_defs accessor_defs)
  have nf: "Get (GetClient (helperOn emptyCluster))
      (fst (''apps'', ''v1''), snd (''apps'', ''v1''), Kind deploymentRef)
      (GetNamespace childConfigMap, Name deploymentRef) = Inl (notFound ''owner-deployment'')"
    by (simp add: example_defs)
  have isnf: "IsNotFound (Some (notFound ''owner-deployment''))"
    by (simp add: IsNotFound_def ReasonForError_def notFound_def)
  have broken: "Get (GetClient (helperOn (brokenCluster internalError)))
      (fst (''apps'', ''v1''), snd (''apps'', ''v1''), Kind deploymentRef)
      (GetNamespace childConfigMap, Name deploymentRef) = Inl internalError"
    by (simp add: example_defs)
  have notnf: "\<not> IsNotFound (Some internalError)"
    by (simp add: IsNotFound_def ReasonForError_def internalError_def)
  note t1 = IsOwnerServiceReady_before_status
      [where obj = "configMap ''test-cm-no-owner'' ''uid-1'' []" and h = "helperOn emptyCluster"]
  note t2 = IsOwnerServiceReady_before_status
      [where obj = "configMap ''child-cm'' ''uid-child'' [malformedRef]"
         and ownerRef = malformedRef and h = "helperOn emptyCluster"
         and err = "PlainError ''unexpected GroupVersion string: apps/v1/beta''"]
  note t3 = IsOwnerServiceReady_before_status
      [where obj = childConfigMap and ownerRef = deploymentRef and h = "helperOn emptyCluster"
         and err = "notFound ''owner-deployment''" and gv = "(''apps'', ''v1'')"]
  note t4 = IsOwnerServiceReady_before_status
      [where obj = childConfigMap and ownerRef = deploymentRef
         and h = "helperOn (brokenCluster internalError)"
         and err = internalError and gv = "(''apps'', ''v1'')"]
  show ?thesis
    using none bad badgv ref gv nf isnf broken notnf t1 t2 t3 t4 by simp
qed

section \<open>Properties of package object: EnsureOwnerRef\<close>

lemmas model_defs =
  modelControllerutil_def modelSetOwnerReference_def modelSetControllerReference_def
  modelMergeFromData_def modelCreateOrPatch_def ownerReferenceTo_def ownerReferenceJSON_def

lemma IsNotFound_not_IsConflict: "IsNotFound err \<Longrightarrow> \<not> IsConflict err"
  by (simp add: IsNotFound_def IsConflict_def)

lemma not_IsConflict_None: "\<not> IsConflict None"
  by (simp add: IsConflict_def ReasonForError_def)

lemma not_IsNotFound_None: "\<not> IsNotFound None"
  by (simp add: IsNotFound_def ReasonForError_def)

lemma IsConflict_WrappedError: "IsConflict (Some (WrappedError msg e)) = IsConflict (Some e)"
  by (simp add: IsConflict_def ReasonForError_def)

text \<open>
  Claim C7. When EnsureOwnerRef submits a patch (the diff has a metadata entry, and the
  one call on the client is that patch): a conflict from the client gives the error
  wrapped as a metadata update conflict, which still classifies as a conflict; a
  not-found from the client is swallowed and the result is nil; any other failure gives
  the error wrapped as a failed metadata update.
\<close>

theorem EnsureOwnerRef_patch_errors:
  assumes "PatchOwnerRef cu owner object (GetScheme h) = (Inr (patchDiff, patch), object1)"
    and "map_of patchDiff ''metadata'' \<noteq> None"
  shows "snd (snd (EnsureOwnerRef cu h owner object)) = [PatchCall object1 patch]
    \<and> (Patch (GetClient h) object1 patch = Some e \<and> IsConflict (Some e) \<longrightarrow>
         fst (EnsureOwnerRef cu h owner object)
           = Some (WrappedError ''error metadata update conflict: '' e)
         \<and> IsConflict (fst (EnsureOwnerRef cu h owner object)))
    \<and> (Patch (GetClient h) object1 patch = Some e \<and> IsNotFound (Some e) \<longrightarrow>
         fst (EnsureOwnerRef cu h owner object) = None)
    \<and> (Patch (GetClient h) object1 patch = Some e \<and> \<not> IsConflict (Some e)
          \<and> \<not> IsNotFound (Some e) \<longrightarrow>
         fst (EnsureOwnerRef cu h owner object)
           = Some (WrappedError ''error metadata update failed: '' e))
    \<and> (Patch (GetClient h) object1 patch = None \<longrightarrow>
         fst (EnsureOwnerRef cu h owner object) = None)"
  using assms
  by (auto simp: EnsureOwnerRef_def Let_def IsConflict_WrappedError not_IsConflict_None
        dest: IsNotFound_not_IsConflict)

theorem EnsureOwnerRef_patch_errors_witness:
  "PatchOwnerRef modelControllerutil ownerConfigMap targetConfigMap
       (GetScheme (helperOn (brokenCluster conflictError)))
     = (Inr ([(''metadata'', JMap [(''ownerReferences'',
                 JSlice [ownerReferenceJSON (ownerReferenceTo ownerConfigMap)])])],
             targetConfigMap),
        targetConfigMap\<lparr>GetOwnerReferences := [ownerReferenceTo ownerConfigMap]\<rparr>)
   \<and> map_of [(''metadata'', JMap [(''ownerReferences'',
                 JSlice [ownerReferenceJSON (ownerReferenceTo ownerConfigMap)])])] ''metadata''
       \<noteq> None
   \<and> IsConflict (Some conflictError)
   \<and> fst (EnsureOwnerRef modelControllerutil (helperOn (brokenCluster conflictError))
            ownerConfigMap targetConfigMap)
       = Some (WrappedError ''error metadata update conflict: '' conflictError)
   \<and> IsConflict (fst (EnsureOwnerRef modelControllerutil (helperOn (brokenCluster conflictError))
            ownerConfigMap targetConfigMap))
   \<and> IsNotFound (Some (notFound ''test-cm''))
   \<and> fst (EnsureOwnerRef modelControllerutil (helperOn emptyCluster)
            ownerConfigMap targetConfigMap) = None
   \<and> \<not> IsConflict (Some internalError) \<and> \<not> IsNotFound (Some internalError)
   \<and> fst (EnsureOwnerRef modelControllerutil (helperOn (brokenCluster internalError))
            ownerConfigMap targetConfigMap)
       = Some (WrappedError ''error metadata update failed: '' internalError)"
proof -
  let ?diff = "[(''metadata'', JMap [(''ownerReferences'',
                 JSlice [ownerReferenceJSON (ownerReferenceTo ownerConfigMap)])])]"
  let ?after = "targetConfigMap\<lparr>GetOwnerReferences := [ownerReferenceTo ownerConfigMap]\<rparr>"
  have patch: "PatchOwnerRef modelControllerutil ownerConfigMap targetConfigMap
      (GetScheme (helperOn c)) = (Inr (?diff, targetConfigMap), ?after)" for c
    by (simp add: PatchOwnerRef_def model_defs example_defs CheckOwnerRefExist_def
          IndexFunc_def)
  have key: "map_of ?diff ''metadata'' \<noteq> None"
    by simp
  have conflict: "Patch (GetClient (helperOn (brokenCluster conflictError))) ?after
      targetConfigMap = Some conflictError" "IsConflict (Some conflictError)"
    by (simp_all add: example_defs IsConflict_def ReasonForError_def)
  have missing: "Patch (GetClient (helperOn emptyCluster)) ?after targetConfigMap
      = Some (notFound ''test-cm'')" "IsNotFound (Some (notFound ''test-cm''))"
    by (simp_all add: example_defs IsNotFound_def ReasonForError_def)
  have other: "Patch (GetClient (helperOn (brokenCluster internalError))) ?after
      targetConfigMap = Some internalError"
    "\<not> IsConflict (Some internalError)" "\<not> IsNotFound (Some internalError)"
    by (simp_all add: example_defs IsConflict_def IsNotFound_def ReasonForError_def)
  show ?thesis
    using patch [of "brokenCluster conflictError"] key conflict missing other
      EnsureOwnerRef_patch_errors [OF patch key, of "brokenCluster conflictError" conflictError]
      EnsureOwnerRef_patch_errors [OF patch key, of emptyCluster "notFound ''test-cm''"]
      EnsureOwnerRef_patch_errors [OF patch key, of "brokenCluster internalError" internalError]
    by (simp add: IsConflict_WrappedError)
qed

text \<open>
  For any collaborators: a diff without a metadata entry ends EnsureOwnerRef with nil and
  without a call on the client, and an error of PatchOwnerRef is returned as it is.
\<close>

lemma EnsureOwnerRef_empty_diff:
  "PatchOwnerRef cu owner object (GetScheme h) = (Inr (patchDiff, patch), object1) \<Longrightarrow>
     map_of patchDiff ''metadata'' = None \<Longrightarrow>
     EnsureOwnerRef cu h owner object = (None, object1, [])"
  by (simp add: EnsureOwnerRef_def)

lemma EnsureOwnerRef_patch_failed:
  "PatchOwnerRef cu owner object (GetScheme h) = (Inl err, object1) \<Longrightarrow>
     EnsureOwnerRef cu h owner object = (Some err, object1, [])"
  by (simp add: EnsureOwnerRef_def)

lemma modelSetOwnerReference_present:
  "CheckOwnerRefExist (GetUID owner) refs \<Longrightarrow>
     modelSetOwnerReference owner refs scheme = (None, refs)"
  by (simp add: modelSetOwnerReference_def)

lemma modelSetOwnerReference_exists:
  "CheckOwnerRefExist (GetUID owner) (snd (modelSetOwnerReference owner refs scheme))"
  by (simp add: modelSetOwnerReference_def CheckOwnerRefExist_image ownerReferenceTo_def)

lemma modelSetOwnerReference_distinct:
  "distinct (map UID refs) \<Longrightarrow>
     distinct (map UID (snd (modelSetOwnerReference owner refs scheme)))"
  by (simp add: modelSetOwnerReference_def CheckOwnerRefExist_image ownerReferenceTo_def)

lemma EnsureOwnerRef_model_object:
  "GetOwnerReferences (fst (snd (EnsureOwnerRef modelControllerutil h owner object)))
     = snd (modelSetOwnerReference owner (GetOwnerReferences object) (GetScheme h))"
  by (simp add: EnsureOwnerRef_def PatchOwnerRef_def modelControllerutil_def
        modelMergeFromData_def modelSetOwnerReference_def Let_def)

lemma EnsureOwnerRef_model_present:
  assumes "CheckOwnerRefExist (GetUID owner) (GetOwnerReferences object)"
  shows "PatchOwnerRef modelControllerutil owner object (GetScheme h)
           = (Inr ([], object), object)"
    and "EnsureOwnerRef modelControllerutil h owner object = (None, object, [])"
  using assms
  by (simp_all add: EnsureOwnerRef_def PatchOwnerRef_def modelControllerutil_def
        modelMergeFromData_def modelSetOwnerReference_def)

lemma EnsureOwnerRefCalls_distinct:
  "distinct (map UID (GetOwnerReferences object)) \<Longrightarrow>
     distinct (map UID (GetOwnerReferences (EnsureOwnerRefCalls modelControllerutil hs owner object)))"
proof (induction hs arbitrary: object)
  case Nil
  then show ?case by simp
next
  case (Cons h hs)
  have "distinct (map UID (GetOwnerReferences
      (fst (snd (EnsureOwnerRef modelControllerutil h owner object)))))"
    using Cons.prems by (simp add: EnsureOwnerRef_model_object modelSetOwnerReference_distinct)
  then show ?case
    using Cons.IH by simp
qed

text \<open>
  Claim C6, with the owner-reference setter and the merge patch modelled from the spec.
  If the target already holds a reference with the UID of the owner, the diff is empty,
  EnsureOwnerRef makes no call on the client and returns nil; a second call after a first
  makes no call either; and over any sequence of calls with the same owner, whatever the
  client answers, a list of owner references without two equal UIDs stays so.
\<close>

theorem EnsureOwnerRef_idempotent:
  "(CheckOwnerRefExist (GetUID owner) (GetOwnerReferences object) \<longrightarrow>
      PatchOwnerRef modelControllerutil owner object (GetScheme h) = (Inr ([], object), object)
      \<and> EnsureOwnerRef modelControllerutil h owner object = (None, object, []))
   \<and> snd (snd (EnsureOwnerRef modelControllerutil g owner
                  (fst (snd (EnsureOwnerRef modelControllerutil h owner object))))) = []
   \<and> (distinct (map UID (GetOwnerReferences object)) \<longrightarrow>
        distinct (map UID (GetOwnerReferences
                    (EnsureOwnerRefCalls modelControllerutil hs owner object))))"
proof -
  have "CheckOwnerRefExist (GetUID owner)
      (GetOwnerReferences (fst (snd (EnsureOwnerRef modelControllerutil h owner object))))"
    by (simp add: EnsureOwnerRef_model_object modelSetOwnerReference_exists)
  then have "snd (snd (EnsureOwnerRef modelControllerutil g owner
      (fst (snd (EnsureOwnerRef modelControllerutil h owner object))))) = []"
    by (simp add: EnsureOwnerRef_model_present(2))
  then show ?thesis
    by (simp add: EnsureOwnerRef_model_present EnsureOwnerRefCalls_distinct)
qed


theorem EnsureOwnerRef_idempotent_witness:
  "CheckOwnerRefExist (GetUID ownerConfigMap)
     (GetOwnerReferences (configMap ''test-cm'' ''uid-cm'' [ownerReferenceTo ownerConfigMap]))
   \<and> EnsureOwnerRef modelControllerutil (helperOn (brokenCluster conflictError)) ownerConfigMap
         (configMap ''test-cm'' ''uid-cm'' [ownerReferenceTo ownerConfigMap])
       = (None, configMap ''test-cm'' ''uid-cm'' [ownerReferenceTo ownerConfigMap], [])
   \<and> snd (snd (EnsureOwnerRef modelControllerutil (helperOn emptyCluster) ownerConfigMap
                  (fst (snd (EnsureOwnerRef modelControllerutil (helperOn emptyCluster)
                               ownerConfigMap targetConfigMap))))) = []
   \<and> distinct (map UID (GetOwnerReferences childConfigMap))
   \<and> distinct (map UID (GetOwnerReferences
         (EnsureOwnerRefCalls modelControllerutil
            [helperOn emptyCluster, helperOn (brokenCluster conflictError), helperOn emptyCluster]
            ownerConfigMap childConfigMap)))
   \<and> map UID (GetOwnerReferences
         (EnsureOwnerRefCalls modelControllerutil
            [helperOn emptyCluster, helperOn (brokenCluster conflictError), helperOn emptyCluster]
            ownerConfigMap childConfigMap)) = [''uid-deployment'', ''uid-owner'']"
proof -
  have present: "CheckOwnerRefExist (GetUID ownerConfigMap)
      (GetOwnerReferences (configMap ''test-cm'' ''uid-cm'' [ownerReferenceTo ownerConfigMap]))"
    by (simp add: CheckOwnerRefExist_image example_defs ownerReferenceTo_def)
  have dist: "distinct (map UID (GetOwnerReferences childConfigMap))"
    by (simp add: example_defs)
  have uids: "map UID (GetOwnerReferences
      (EnsureOwnerRefCalls modelControllerutil
         [helperOn emptyCluster, helperOn (brokenCluster conflictError), helperOn emptyCluster]
         ownerConfigMap childConfigMap)) = [''uid-deployment'', ''uid-owner'']"
    by (simp add: EnsureOwnerRef_model_object modelSetOwnerReference_def
          CheckOwnerRefExist_image ownerReferenceTo_def example_defs)
  note hs = EnsureOwnerRef_idempotent
      [where owner = ownerConfigMap and h = "helperOn emptyCluster"
         and g = "helperOn emptyCluster" and object = childConfigMap
         and hs = "[helperOn emptyCluster, helperOn (brokenCluster conflictError),
                    helperOn emptyCluster]"]
  note once = EnsureOwnerRef_idempotent
      [where owner = ownerConfigMap and h = "helperOn (brokenCluster conflictError)"
         and g = "helperOn emptyCluster" and hs = "[]"
         and object = "configMap ''test-cm'' ''uid-cm'' [ownerReferenceTo ownerConfigMap]"]
  note twice = EnsureOwnerRef_idempotent
      [where owner = ownerConfigMap and h = "helperOn emptyCluster"
         and g = "helperOn emptyCluster" and hs = "[]" and object = targetConfigMap]
  from once present have a: "EnsureOwnerRef modelControllerutil
      (helperOn (brokenCluster conflictError)) ownerConfigMap
      (configMap ''test-cm'' ''uid-cm'' [ownerReferenceTo ownerConfigMap])
    = (None, configMap ''test-cm'' ''uid-cm'' [ownerReferenceTo ownerConfigMap], [])"
    by blast
  from twice have b: "snd (snd (EnsureOwnerRef modelControllerutil (helperOn emptyCluster)
      ownerConfigMap (fst (snd (EnsureOwnerRef modelControllerutil (helperOn emptyCluster)
        ownerConfigMap targetConfigMap))))) = []"
    by blast
  from hs dist have c: "distinct (map UID (GetOwnerReferences
      (EnsureOwnerRefCalls modelControllerutil
         [helperOn emptyCluster, helperOn (brokenCluster conflictError), helperOn emptyCluster]
         ownerConfigMap childConfigMap)))"
    by blast
  from present a b dist c uids show ?thesis
    by blast
qed

section \<open>Properties of package clusterrole\<close>

text \<open>
  Claim C8. If the create-or-patch transaction of the client reports not-found,
  CreateOrPatch returns a result with RequeueAfter equal to the timeout and a nil error.
  Delete returns nil when the delete of the client reports not-found, and the wrapped
  error on any other failure of it.
\<close>

theorem CreateOrPatch_Delete_not_found:
  "(fst (snd (controllerutil_CreateOrPatch cu (GetClient h)
       (namedClusterRole (ObjectName (clusterrole r)) (ObjectNamespace (clusterrole r)))
       (CreateOrPatch_mutate cu r h))) = Some e
     \<and> IsNotFound (Some e) \<longrightarrow>
       CreateOrPatch cu r h = (\<lparr>Requeue = False, RequeueAfter = timeout r\<rparr>, None))
   \<and> (DeleteClusterRole (GetClient h) (clusterrole r) = Some e \<and> IsNotFound (Some e) \<longrightarrow>
        Delete r h = None)
   \<and> (DeleteClusterRole (GetClient h) (clusterrole r) = Some e \<and> \<not> IsNotFound (Some e) \<longrightarrow>
        Delete r h = Some (WrappedError (''Error deleting clusterrole ''
                             @ ObjectName (clusterrole r) @ '': '') e))"
  by (simp add: CreateOrPatch_def Delete_def Let_def split: prod.splits)

theorem CreateOrPatch_Delete_not_found_witness:
  "fst (snd (controllerutil_CreateOrPatch modelControllerutil
       (GetClient (helperOn (brokenCluster (notFound ''nova-role''))))
       (namedClusterRole (ObjectName (clusterrole roleReconciler))
          (ObjectNamespace (clusterrole roleReconciler)))
       (CreateOrPatch_mutate modelControllerutil roleReconciler
          (helperOn (brokenCluster (notFound ''nova-role'')))))) = Some (notFound ''nova-role'')
   \<and> IsNotFound (Some (notFound ''nova-role''))
   \<and> CreateOrPatch modelControllerutil roleReconciler
         (helperOn (brokenCluster (notFound ''nova-role'')))
       = (\<lparr>Requeue = False, RequeueAfter = 5000000000\<rparr>, None)
   \<and> DeleteClusterRole (GetClient (helperOn emptyCluster)) (clusterrole roleReconciler)
       = Some (notFound ''nova-role'')
   \<and> Delete roleReconciler (helperOn emptyCluster) = None
   \<and> DeleteClusterRole (GetClient (helperOn (brokenCluster internalError)))
         (clusterrole roleReconciler) = Some internalError
   \<and> \<not> IsNotFound (Some internalError)
   \<and> Delete roleReconciler (helperOn (brokenCluster internalError))
       = Some (WrappedError ''Error deleting clusterrole nova-role: '' internalError)"
proof -
  let ?h = "helperOn (brokenCluster (notFound ''nova-role''))"
  have isnf: "IsNotFound (Some (notFound name))" for name
    by (simp add: IsNotFound_def ReasonForError_def notFound_def)
  have notnf: "\<not> IsNotFound (Some internalError)"
    by (simp add: IsNotFound_def ReasonForError_def internalError_def)
  have name: "ObjectName (clusterrole roleReconciler) = ''nova-role''"
    "ObjectNamespace (clusterrole roleReconciler) = []" "timeout roleReconciler = 5000000000"
    by (simp_all add: roleReconciler_def NewClusterRole_def desiredClusterRole_def)
  have "fst (CreateOrPatch_mutate modelControllerutil roleReconciler ?h
      (namedClusterRole ''nova-role'' [])) = None"
    by (simp add: CreateOrPatch_mutate_def model_defs example_defs namedClusterRole_def
          Let_def)
  then obtain m where mutate: "CreateOrPatch_mutate modelControllerutil roleReconciler ?h
      (namedClusterRole ''nova-role'' []) = (None, m)"
    by (cases "CreateOrPatch_mutate modelControllerutil roleReconciler ?h
      (namedClusterRole ''nova-role'' [])") simp
  have named: "ObjectName (namedClusterRole n ns) = n"
    "ObjectNamespace (namedClusterRole n ns) = ns" for n ns
    by (simp_all add: namedClusterRole_def)
  have lib: "controllerutil_CreateOrPatch modelControllerutil = modelCreateOrPatch"
    by (simp add: modelControllerutil_def)
  have client: "GetClusterRole (GetClient ?h) key = Inl (notFound ''nova-role'')"
    "CreateClusterRole (GetClient ?h) object = Some (notFound ''nova-role'')" for key object
    by (simp_all add: helperOn_def brokenCluster_def)
  have call: "fst (snd (controllerutil_CreateOrPatch modelControllerutil (GetClient ?h)
      (namedClusterRole (ObjectName (clusterrole roleReconciler))
         (ObjectNamespace (clusterrole roleReconciler)))
      (CreateOrPatch_mutate modelControllerutil roleReconciler ?h)))
    = Some (notFound ''nova-role'')"
    unfolding name lib modelCreateOrPatch_def
    by (simp add: client isnf named mutate)
  have del1: "DeleteClusterRole (GetClient (helperOn emptyCluster)) (clusterrole roleReconciler)
      = Some (notFound ''nova-role'')"
    by (simp add: example_defs roleReconciler_def NewClusterRole_def desiredClusterRole_def)
  have del2: "DeleteClusterRole (GetClient (helperOn (brokenCluster internalError)))
      (clusterrole roleReconciler) = Some internalError"
    by (simp add: helperOn_def brokenCluster_def)
  show ?thesis
    using call isnf [of "''nova-role''"] del1 del2 notnf name
      CreateOrPatch_Delete_not_found
        [where cu = modelControllerutil and h = ?h and r = roleReconciler
           and e = "notFound ''nova-role''"]
      CreateOrPatch_Delete_not_found
        [where h = "helperOn emptyCluster" and r = roleReconciler
           and e = "notFound ''nova-role''"]
      CreateOrPatch_Delete_not_found
        [where h = "helperOn (brokenCluster internalError)" and r = roleReconciler
           and e = internalError]
    by simp
qed

text \<open>
  Claim C1 has the mutation of CreateOrPatch set the labels to the merge of the live and
  the desired labels, the annotations to the merge of the live and the desired
  annotations, and the rules to the desired rules. Labels and rules are set so; the
  annotations are merged from the labels that were just set, not from the live
  annotations (line 59 passes \<open>clusterrole.Labels\<close>).
\<close>

lemma CreateOrPatch_mutate_fields:
  "Labels (snd (CreateOrPatch_mutate cu r h cr))
     = MergeStringMaps (Labels cr) (Labels (clusterrole r))
   \<and> Annotations (snd (CreateOrPatch_mutate cu r h cr))
     = MergeStringMaps (MergeStringMaps (Labels cr) (Labels (clusterrole r)))
         (Annotations (clusterrole r))
   \<and> Rules (snd (CreateOrPatch_mutate cu r h cr)) = Rules (clusterrole r)"
  by (simp add: CreateOrPatch_mutate_def Let_def split: prod.splits)

text \<open>
  Claim C1 at a live role with the label app=nova and the annotation note=keep, and a
  desired role without labels or annotations: after the mutation the annotation note is
  gone and the label app has become an annotation, where the merge of the live and the
  desired annotations holds note=keep and no app.
\<close>

theorem CreateOrPatch_mutate_annotations_from_labels:
  "Annotations (snd (CreateOrPatch_mutate modelControllerutil
       roleReconciler (helperOn emptyCluster) liveClusterRole)) ''note''
     = None
   \<and> Annotations (snd (CreateOrPatch_mutate modelControllerutil
       roleReconciler (helperOn emptyCluster) liveClusterRole)) ''app''
     = Some ''nova''
   \<and> MergeStringMaps (Annotations liveClusterRole) (Annotations desiredClusterRole) ''note''
     = Some ''keep''
   \<and> MergeStringMaps (Annotations liveClusterRole) (Annotations desiredClusterRole) ''app''
     = None"
  by (simp add: CreateOrPatch_mutate_fields MergeStringMaps_def NewClusterRole_def roleReconciler_def
        liveClusterRole_def desiredClusterRole_def)

end
